theory Spec2Isabelle
  imports Complex_Main
begin

section \<open>Adaptive difficulty estimator (src/utils/adaptiveDifficulty.js)\<close>

text \<open>
  JavaScript numbers are modelled exactly: percentages and means are rationals, question
  counts and scores are integers; the rounding error of double arithmetic is left out.
  \<open>Math.round\<close> is \<^const>\<open>round\<close> (half-way cases go
  up), \<open>Math.ceil\<close> and \<open>Math.floor\<close> are \<^const>\<open>ceiling\<close> and \<^const>\<open>floor\<close>.
\<close>

datatype error =
    PersistenceError
  | TypeError
  | ValidationError
  | ProviderFailure
  | NoQuestionText
  | EmptyQuestionText
  | TooFewOptions nat
  | AllProvidersExhausted
  | AllModelsFailed

datatype trend = Stable | Improving | Declining

text \<open>ResponseSchema and SubmissionSchema of src/models/Submission.js. A field that a
  document may lack is an option.\<close>

record response =
  r_questionId :: string
  userResponse :: string
  r_correctAnswer :: "string option"
  isCorrect :: "bool option"

record submission =
  s_quizId :: string
  username :: "string option"
  userId :: "string option"
  responses :: "response list"
  score :: int
  suggestions :: "string list"

record metrics =
  overallPercentage :: rat
  averageRecentPerformage :: rat
  trend :: trend
  totalAttempts :: nat
  totalQuestions :: int
  totalCorrect :: int

text \<open>The \<open>reasoning\<close> string of a distribution is informational; the model keeps the
  values it is rendered from.\<close>

datatype reasoning = NewUser | BasedOn rat trend

record distribution =
  easy :: int
  medium :: int
  hard :: int
  reasoning :: reasoning

subsection \<open>calculatePerformanceMetrics\<close>

definition percentage :: "submission \<Rightarrow> rat" where
  "percentage s =
     (let questionsInSubmission = int (length (responses s));
          correctInSubmission = score s
      in if questionsInSubmission > 0
         then (of_int correctInSubmission / of_int questionsInSubmission) * 100
         else 0)"

definition recentPerformance :: "submission list \<Rightarrow> rat list" where
  "recentPerformance submissions = map percentage submissions"

definition calculateTrend :: "rat list \<Rightarrow> trend" where
  "calculateTrend perf =
     (if length perf \<ge> 3 then
        (let firstHalf = take (length perf div 2) perf;
             secondHalf = drop (length perf div 2) perf;
             firstAvg = sum_list firstHalf / of_nat (length firstHalf);
             secondAvg = sum_list secondHalf / of_nat (length secondHalf)
         in if secondAvg > firstAvg + 10 then Improving
            else if secondAvg < firstAvg - 10 then Declining
            else Stable)
      else Stable)"

definition averageRecent :: "rat list \<Rightarrow> rat" where
  "averageRecent perf =
     (if length perf > 0 then sum_list perf / of_nat (length perf) else 50)"

definition calculatePerformanceMetrics :: "submission list \<Rightarrow> metrics" where
  "calculatePerformanceMetrics submissions =
     (let tq = sum_list (map (\<lambda>s. int (length (responses s))) submissions);
          tc = sum_list (map score submissions);
          perf = recentPerformance submissions
      in \<lparr> overallPercentage = (if tq > 0 then (of_int tc / of_int tq) * 100 else 50),
           averageRecentPerformage = averageRecent perf,
           trend = calculateTrend perf,
           totalAttempts = length submissions,
           totalQuestions = tq,
           totalCorrect = tc \<rparr>)"

subsection \<open>generateAdaptiveDistribution\<close>

text \<open>The body of generateAdaptiveDistribution, one definition per stage; a triple is
  (easyPercentage, mediumPercentage, hardPercentage).\<close>

type_synonym percentages = "rat \<times> rat \<times> rat"

definition bandPercentages :: "rat \<Rightarrow> trend \<Rightarrow> percentages" where
  "bandPercentages performanceScore t =
     (if performanceScore \<ge> 80 then
        ((if t = Declining then 30 else 20), 40, (if t = Declining then 30 else 40))
      else if performanceScore \<ge> 60 then (30, 50, 20)
      else if performanceScore \<ge> 40 then (50, 35, 15)
      else ((if t = Improving then 50 else 60),
            (if t = Improving then 35 else 30),
            (if t = Improving then 15 else 10)))"

definition trendAdjust :: "trend \<Rightarrow> percentages \<Rightarrow> percentages" where
  "trendAdjust t p =
     (case p of (e, m, h) \<Rightarrow>
        if t = Improving then (e - 5, m, h + 5)
        else if t = Declining then (e + 5, m, h - 5)
        else (e, m, h))"

definition clampPercentages :: "percentages \<Rightarrow> percentages" where
  "clampPercentages p =
     (case p of (e, m, h) \<Rightarrow>
        (max 10 (min 70 e), max 20 (min 60 m), max 5 (min 50 h)))"

definition normalizePercentages :: "percentages \<Rightarrow> percentages" where
  "normalizePercentages p =
     (case p of (e, m, h) \<Rightarrow>
        (let tot = e + m + h;
             e' = of_int (round ((e / tot) * 100));
             m' = of_int (round ((m / tot) * 100));
             h' = 100 - e' - m'
         in (e', m', h')))"

definition preClampPercentages :: "metrics \<Rightarrow> percentages" where
  "preClampPercentages ms =
     trendAdjust (trend ms) (bandPercentages (averageRecentPerformage ms) (trend ms))"

definition finalPercentages :: "metrics \<Rightarrow> percentages" where
  "finalPercentages ms = normalizePercentages (clampPercentages (preClampPercentages ms))"

definition questionCounts :: "percentages \<Rightarrow> int \<Rightarrow> int \<times> int \<times> int" where
  "questionCounts p requested =
     (case p of (e, m, h) \<Rightarrow>
        (let easyCount = round ((e / 100) * of_int requested);
             hardCount = round ((h / 100) * of_int requested);
             mediumCount = requested - easyCount - hardCount
         in (easyCount, mediumCount, hardCount)))"

definition generateAdaptiveDistribution :: "metrics \<Rightarrow> int \<Rightarrow> distribution" where
  "generateAdaptiveDistribution ms requested =
     (case questionCounts (finalPercentages ms) requested of
        (easyCount, mediumCount, hardCount) \<Rightarrow>
          \<lparr> easy = max 1 easyCount,
            medium = max 1 mediumCount,
            hard = max 0 hardCount,
            reasoning = BasedOn (averageRecentPerformage ms) (trend ms) \<rparr>)"

subsection \<open>getBalancedDistribution and calculateAdaptiveDifficulty\<close>

definition getBalancedDistribution :: "int \<Rightarrow> distribution" where
  "getBalancedDistribution requested =
     (let e = \<lceil>(of_int requested :: rat) * 0.4\<rceil>;
          h = \<lfloor>(of_int requested :: rat) * 0.2\<rfloor>;
          m = requested - e - h
      in \<lparr> easy = e, medium = m, hard = h, reasoning = NewUser \<rparr>)"

text \<open>\<open>Submission.find(...).sort(...).limit(10)\<close> is the persistence collaborator: a
  function from the user id to the outcome of the query, a rejection (\<open>Inl\<close>) or the
  value it resolves to (\<open>None\<close> for a null result).\<close>

type_synonym submission_find = "string \<Rightarrow> error + submission list option"

definition adaptiveDifficultyBody ::
  "submission_find \<Rightarrow> string \<Rightarrow> string \<Rightarrow> int \<Rightarrow> error + distribution" where
  "adaptiveDifficultyBody findSubmissions uid subject requested =
     (case findSubmissions uid of
        Inl e \<Rightarrow> Inl e
      | Inr None \<Rightarrow> Inr (getBalancedDistribution requested)
      | Inr (Some pastSubmissions) \<Rightarrow>
          if length pastSubmissions = 0 then Inr (getBalancedDistribution requested)
          else Inr (generateAdaptiveDistribution
                      (calculatePerformanceMetrics pastSubmissions) requested))"

text \<open>The try/catch of calculateAdaptiveDifficulty: whatever the body throws is replaced
  by the balanced distribution.\<close>

definition calculateAdaptiveDifficulty ::
  "submission_find \<Rightarrow> string \<Rightarrow> string \<Rightarrow> int \<Rightarrow> error + distribution" where
  "calculateAdaptiveDifficulty findSubmissions uid subject requested =
     (case adaptiveDifficultyBody findSubmissions uid subject requested of
        Inl e \<Rightarrow> Inr (getBalancedDistribution requested)
      | Inr d \<Rightarrow> Inr d)"


definition failingStore :: submission_find where
  "failingStore = (\<lambda>uid. Inl PersistenceError)"

definition attempt :: "nat \<Rightarrow> int \<Rightarrow> submission" where
  "attempt n correct =
     \<lparr> s_quizId = ''quiz_1'', username = Some ''guest'', userId = Some ''u1'',
       responses = replicate n \<lparr> r_questionId = ''q1'', userResponse = ''A'',
                                 r_correctAnswer = Some ''A'', isCorrect = Some True \<rparr>,
       score = correct, suggestions = [] \<rparr>"

text \<open>The history of the spec's worked example: five attempts of 100 questions each.\<close>

definition exampleHistory :: "submission list" where
  "exampleHistory = [attempt 100 90, attempt 100 92, attempt 100 95, attempt 100 40, attempt 100 35]"

text \<open>The percentage triples that the band table and the trend nudge can produce.\<close>

definition bandTriples :: "percentages set" where
  "bandTriples = {(20, 40, 40), (35, 40, 25), (15, 40, 45),
                  (30, 50, 20), (25, 50, 25), (35, 50, 15),
                  (50, 35, 15), (45, 35, 20), (55, 35, 10),
                  (60, 30, 10), (65, 30, 5)}"



section \<open>Question parser (services/questionService.js)\<close>

text \<open>
  A JavaScript string is modelled as a \<^typ>\<open>string\<close>, one \<^typ>\<open>char\<close> per code unit; the
  model covers the strings whose code units are below 256. The regular expressions of
  the source are written out as matchers that follow the backtracking order of the
  regular expression engine.
\<close>

text \<open>\<open>\s\<close> and \<open>trim()\<close>: tab, line feed, vertical tab, form feed, carriage return,
  space, no-break space.\<close>

definition isSpace :: "char \<Rightarrow> bool" where
  "isSpace c \<longleftrightarrow> c \<in> set [CHR 0x09, CHR 0x0A, CHR 0x0B, CHR 0x0C, CHR 0x0D, CHR 0x20, CHR 0xA0]"

definition isDigit :: "char \<Rightarrow> bool" where
  "isDigit c \<longleftrightarrow> c \<in> set ''0123456789''"

definition isUpperAD :: "char \<Rightarrow> bool" where
  "isUpperAD c \<longleftrightarrow> c \<in> set ''ABCD''"

text \<open>\<open>[A-D]\<close> under the \<open>i\<close> flag.\<close>

definition isLetterAD :: "char \<Rightarrow> bool" where
  "isLetterAD c \<longleftrightarrow> c \<in> set ''ABCDabcd''"

definition isLineBreak :: "char \<Rightarrow> bool" where
  "isLineBreak c \<longleftrightarrow> c = CHR 0x0A \<or> c = CHR 0x0D"

definition toUpperCase :: "char \<Rightarrow> char" where
  "toUpperCase c =
     (let n = (of_char c :: nat) in if 97 \<le> n \<and> n \<le> 122 then char_of (n - 32) else c)"

definition trim :: "string \<Rightarrow> string" where
  "trim s = rev (dropWhile isSpace (rev (dropWhile isSpace s)))"

text \<open>\<open>Q\d*:\s*\<close> tried at the start of \<open>s\<close>: the length of the match. \<open>ci\<close> is the
  \<open>i\<close> flag.\<close>

definition matchQMarker :: "bool \<Rightarrow> string \<Rightarrow> nat option" where
  "matchQMarker ci s =
     (case s of
        [] \<Rightarrow> None
      | c # cs \<Rightarrow>
          if c = CHR ''Q'' \<or> (ci \<and> c = CHR ''q'') then
            (case dropWhile isDigit cs of
               [] \<Rightarrow> None
             | d # r \<Rightarrow>
                 if d = CHR '':''
                 then Some (length (takeWhile isDigit cs) + 2 + length (takeWhile isSpace r))
                 else None)
          else None)"

text \<open>\<open>text.split(/Q\d*:\s*/i)\<close>: the pieces between the matches, found from left to
  right. The first argument counts the characters of a match still to be skipped, the
  second holds the current piece, reversed.\<close>

fun splitQ :: "nat \<Rightarrow> string \<Rightarrow> string \<Rightarrow> string list" where
  "splitQ k acc [] = [rev acc]"
| "splitQ (Suc k) acc (c # cs) = splitQ k acc cs"
| "splitQ 0 acc (c # cs) =
     (case matchQMarker True (c # cs) of
        Some n \<Rightarrow> rev acc # splitQ (n - 1) [] cs
      | None \<Rightarrow> splitQ 0 (c # acc) cs)"

definition questionBlocks :: "string \<Rightarrow> string list" where
  "questionBlocks text = filter (\<lambda>block. trim block \<noteq> []) (splitQ 0 [] text)"

text \<open>\<open>/^([^A-D]*?)(?=A\))/s\<close>: the lazy group grows one character at a time until
  the lookahead sees \<open>A)\<close>; it cannot grow over an upper-case A, B, C or D.\<close>

fun matchQuestionText :: "string \<Rightarrow> string \<Rightarrow> string option" where
  "matchQuestionText acc [] = None"
| "matchQuestionText acc (c # cs) =
     (if c = CHR ''A'' \<and> take 1 cs = '')'' then Some (rev acc)
      else if isUpperAD c then None
      else matchQuestionText (c # acc) cs)"

text \<open>\<open>.replace(/^Q\d*:\s*/, '')\<close>\<close>

definition stripQMarker :: "string \<Rightarrow> string" where
  "stripQMarker s = (case matchQMarker False s of Some n \<Rightarrow> drop n s | None \<Rightarrow> s)"

text \<open>\<open>[A-D]\)\s*[^\n\r]*\<close> under the \<open>i\<close> flag, tried at the start of \<open>s\<close>: the
  matched text.\<close>

definition matchOption :: "string \<Rightarrow> string option" where
  "matchOption s =
     (case s of
        c # p # r \<Rightarrow>
          if isLetterAD c \<and> p = CHR '')'' then
            Some (c # p # takeWhile isSpace r
                    @ takeWhile (\<lambda>x. \<not> isLineBreak x) (dropWhile isSpace r))
          else None
      | _ \<Rightarrow> None)"

text \<open>\<open>block.match(/([A-D]\)\s*[^\n\r]*)/gi)\<close>: all matches from left to right, each
  search starting where the previous match ended.\<close>

fun optionMatches :: "nat \<Rightarrow> string \<Rightarrow> string list" where
  "optionMatches k [] = []"
| "optionMatches (Suc k) (c # cs) = optionMatches k cs"
| "optionMatches 0 (c # cs) =
     (case matchOption (c # cs) of
        Some m \<Rightarrow> m # optionMatches (length m - 1) cs
      | None \<Rightarrow> optionMatches 0 cs)"

text \<open>\<open>/Answer:\s*([A-D])/i\<close> and \<open>/Correct:\s*([A-D])/i\<close>: \<open>kw\<close> is the keyword in
  upper case; the result is the captured letter.\<close>

definition matchAnswerAt :: "string \<Rightarrow> string \<Rightarrow> char option" where
  "matchAnswerAt kw s =
     (if map toUpperCase (take (length kw) s) = kw then
        (case dropWhile isSpace (drop (length kw) s) of
           [] \<Rightarrow> None
         | g # r \<Rightarrow> if isLetterAD g then Some g else None)
      else None)"

fun searchAnswer :: "string \<Rightarrow> string \<Rightarrow> char option" where
  "searchAnswer kw [] = None"
| "searchAnswer kw (c # cs) =
     (case matchAnswerAt kw (c # cs) of
        Some g \<Rightarrow> Some g
      | None \<Rightarrow> searchAnswer kw cs)"

text \<open>Decimal rendering of the question number in \<open>`q${questionNum}`\<close>.\<close>

definition digitChar :: "nat \<Rightarrow> char" where
  "digitChar d = char_of (48 + d)"

fun showNat :: "nat \<Rightarrow> string" where
  "showNat n = (if n < 10 then [digitChar n] else showNat (n div 10) @ [digitChar (n mod 10)])"

declare showNat.simps [simp del]

record parsed_question =
  questionId :: string
  question :: string
  options :: "string list"
  answer :: string

definition parseQuestionBlock :: "string \<Rightarrow> nat \<Rightarrow> error + parsed_question" where
  "parseQuestionBlock block questionNum =
     (case matchQuestionText [] block of
        None \<Rightarrow> Inl NoQuestionText
      | Some g \<Rightarrow>
          (let questionText = trim (stripQMarker g) in
           if questionText = [] then Inl EmptyQuestionText
           else
             (let optionMatches = optionMatches 0 block in
              if length optionMatches < 4 then Inl (TooFewOptions (length optionMatches))
              else
                (let opts = map trim (take 4 optionMatches);
                     answerMatch =
                       (case searchAnswer ''ANSWER:'' block of
                          Some g \<Rightarrow> Some g
                        | None \<Rightarrow> searchAnswer ''CORRECT:'' block);
                     ans = (case answerMatch of Some g \<Rightarrow> [toUpperCase g] | None \<Rightarrow> ''A'')
                 in Inr \<lparr> questionId = ''q'' @ showNat questionNum,
                          question = questionText,
                          options = opts,
                          answer = ans \<rparr>))))"

text \<open>The loop of parseQuestionsFromText over the first blocks; \<open>i\<close> is the loop index.
  A block that throws, or whose result fails the acceptance test, is skipped.\<close>

fun parseLoop :: "nat \<Rightarrow> string list \<Rightarrow> parsed_question list" where
  "parseLoop i [] = []"
| "parseLoop i (b # bs) =
     (let block = trim b in
      if block = [] then parseLoop (Suc i) bs
      else
        (case parseQuestionBlock block (i + 1) of
           Inl err \<Rightarrow> parseLoop (Suc i) bs
         | Inr q \<Rightarrow>
             if question q \<noteq> [] \<and> length (options q) = 4
             then q # parseLoop (Suc i) bs
             else parseLoop (Suc i) bs))"

definition parseQuestionsFromText :: "string \<Rightarrow> int \<Rightarrow> parsed_question list" where
  "parseQuestionsFromText text expectedCount =
     (let blocks = questionBlocks text
      in parseLoop 0 (take (nat (min (int (length blocks)) expectedCount)) blocks))"

text \<open>A block is accepted when the block parser returns a question for it.\<close>

definition accepts :: "string \<Rightarrow> bool" where
  "accepts b = (case parseQuestionBlock (trim b) 1 of Inr pq \<Rightarrow> True | Inl e \<Rightarrow> False)"

text \<open>Sample completions in the format the prompt asks for: five question blocks, and
  the same text with option D of the second block left out.\<close>

definition fiveBlocks :: string where
  "fiveBlocks =
     ''Q1: What is 2 + 2?\<newline>A) 3\<newline>B) 4\<newline>C) 5\<newline>D) 6\<newline>Answer: B\<newline>\<newline>'' @
     ''Q2: What is 3 + 3?\<newline>A) 6\<newline>B) 7\<newline>C) 8\<newline>D) 9\<newline>Answer: A\<newline>\<newline>'' @
     ''Q3: What is 5 - 1?\<newline>A) 1\<newline>B) 2\<newline>C) 4\<newline>D) 5\<newline>Answer: C\<newline>\<newline>'' @
     ''Q4: What is 2 * 4?\<newline>A) 6\<newline>B) 7\<newline>C) 9\<newline>D) 8\<newline>Answer: D\<newline>\<newline>'' @
     ''Q5: What is 9 / 3?\<newline>A) 1\<newline>B) 3\<newline>C) 6\<newline>D) 9\<newline>Answer: B\<newline>''"

definition fiveBlocksOneShort :: string where
  "fiveBlocksOneShort =
     ''Q1: What is 2 + 2?\<newline>A) 3\<newline>B) 4\<newline>C) 5\<newline>D) 6\<newline>Answer: B\<newline>\<newline>'' @
     ''Q2: What is 3 + 3?\<newline>A) 6\<newline>B) 7\<newline>C) 8\<newline>Answer: A\<newline>\<newline>'' @
     ''Q3: What is 5 - 1?\<newline>A) 1\<newline>B) 2\<newline>C) 4\<newline>D) 5\<newline>Answer: C\<newline>\<newline>'' @
     ''Q4: What is 2 * 4?\<newline>A) 6\<newline>B) 7\<newline>C) 9\<newline>D) 8\<newline>Answer: D\<newline>\<newline>'' @
     ''Q5: What is 9 / 3?\<newline>A) 1\<newline>B) 3\<newline>C) 6\<newline>D) 9\<newline>Answer: B\<newline>''"

text \<open>A completion whose second option is marked with a lower-case letter.\<close>

definition lowerCaseText :: string where
  "lowerCaseText = ''Q1: What is 2 + 2?\<newline>A) 3\<newline>b) 4\<newline>C) 5\<newline>D) 6\<newline>Answer: b''"

text \<open>An option string that begins with its marker: a letter matched by \<open>[A-D]\<close> under
  the \<open>i\<close> flag, followed by a closing parenthesis.\<close>

definition markedOption :: "string \<Rightarrow> bool" where
  "markedOption opt = (case opt of c # p # r \<Rightarrow> isLetterAD c \<and> p = CHR '')'' | _ \<Rightarrow> False)"

definition bareLetters :: "string set" where
  "bareLetters = {''A'', ''B'', ''C'', ''D''}"

section \<open>AI completion gateway (services/questionService.js)\<close>

text \<open>The process environment, and the outcome of each provider call: \<open>Inl\<close> when the
  request is rejected or the payload lacks the completion text (both are caught by the
  caller's try/catch), \<open>Inr\<close> the completion text.\<close>

record env =
  OPENROUTER_API_KEY :: "string option"
  GROQ_API_KEY :: "string option"
  HUGGINGFACE_API_KEY :: "string option"

type_synonym completion = "error + string"

record providers =
  openRouterChat :: completion
  groqChat :: completion
  hfTextGeneration :: "string \<Rightarrow> completion"

text \<open>\<open>!process.env.KEY\<close>\<close>

definition keyMissing :: "string option \<Rightarrow> bool" where
  "keyMissing k \<longleftrightarrow> k = None \<or> k = Some []"

definition tryOpenRouterGeneration :: "env \<Rightarrow> providers \<Rightarrow> int \<Rightarrow> parsed_question list option" where
  "tryOpenRouterGeneration ev net totalQs =
     (if keyMissing (OPENROUTER_API_KEY ev) then None
      else (case openRouterChat net of
              Inl e \<Rightarrow> None
            | Inr text \<Rightarrow> Some (parseQuestionsFromText text totalQs)))"

definition tryGroqGeneration :: "env \<Rightarrow> providers \<Rightarrow> int \<Rightarrow> parsed_question list option" where
  "tryGroqGeneration ev net totalQs =
     (if keyMissing (GROQ_API_KEY ev) then None
      else (case groqChat net of
              Inl e \<Rightarrow> None
            | Inr text \<Rightarrow> Some (parseQuestionsFromText text totalQs)))"

definition workingModels :: "string list" where
  "workingModels = [''microsoft/DialoGPT-medium'', ''facebook/blenderbot-400M-distill'',
                    ''microsoft/DialoGPT-small'']"

fun hfLoop :: "providers \<Rightarrow> int \<Rightarrow> string list \<Rightarrow> parsed_question list option" where
  "hfLoop net totalQs [] = None"
| "hfLoop net totalQs (model # models) =
     (case hfTextGeneration net model of
        Inl e \<Rightarrow> hfLoop net totalQs models
      | Inr text \<Rightarrow>
          (let questions = parseQuestionsFromText text totalQs in
           if length questions > 0 then Some questions
           else hfLoop net totalQs models))"

definition tryHuggingFaceGeneration :: "env \<Rightarrow> providers \<Rightarrow> int \<Rightarrow> parsed_question list option" where
  "tryHuggingFaceGeneration ev net totalQs =
     (if keyMissing (HUGGINGFACE_API_KEY ev) then None
      else hfLoop net totalQs workingModels)"

text \<open>\<open>questions && questions.length > 0\<close>\<close>

definition usable :: "parsed_question list option \<Rightarrow> bool" where
  "usable r = (case r of None \<Rightarrow> False | Some qs \<Rightarrow> length qs > 0)"

text \<open>generateQuestions: the \<open>Error("All AI services failed ...")\<close> thrown at the end is
  \<^const>\<open>AllProvidersExhausted\<close>.\<close>

definition generateQuestions :: "env \<Rightarrow> providers \<Rightarrow> int \<Rightarrow> error + parsed_question list" where
  "generateQuestions ev net totalQs =
     (case tryOpenRouterGeneration ev net totalQs of
        Some (q # qs) \<Rightarrow> Inr (q # qs)
      | _ \<Rightarrow>
        (case tryGroqGeneration ev net totalQs of
           Some (q # qs) \<Rightarrow> Inr (q # qs)
         | _ \<Rightarrow>
           (case tryHuggingFaceGeneration ev net totalQs of
              Some (q # qs) \<Rightarrow> Inr (q # qs)
            | _ \<Rightarrow> Inl AllProvidersExhausted)))"

subsection \<open>generateAISuggestions\<close>

text \<open>What one request of generateAISuggestions comes to: the fetch is rejected (or
  reading the body throws), the status is not ok, the payload has no
  \<open>choices[0].message\<close>, or there is a content string.\<close>

datatype fetch_outcome = FetchRejected | HttpNotOk nat | InvalidStructure | Content string

definition freeModels :: "string list" where
  "freeModels = [''google/gemma-2-9b-it:free'',
                 ''microsoft/phi-3-medium-128k-instruct:free'',
                 ''microsoft/phi-3-mini-128k-instruct:free'',
                 ''meta-llama/llama-3.2-11b-vision-instruct:free'',
                 ''meta-llama/llama-3.2-3b-instruct:free'',
                 ''meta-llama/llama-3.2-1b-instruct:free'',
                 ''qwen/qwen-2-7b-instruct:free'',
                 ''huggingfaceh4/zephyr-7b-beta:free'']"

text \<open>\<open>split('\n')\<close>; the second argument holds the current line, reversed.\<close>

fun splitLines :: "string \<Rightarrow> string \<Rightarrow> string list" where
  "splitLines acc [] = [rev acc]"
| "splitLines acc (c # cs) =
     (if c = CHR 0x0A then rev acc # splitLines [] cs else splitLines (c # acc) cs)"

text \<open>\<open>.replace(/^\d+[\.\)]\s*/, '')\<close> and \<open>.replace(/^[-\<bullet>*]\s*/, '')\<close>; the bullet
  character is outside the modelled code units.\<close>

definition stripNumber :: "string \<Rightarrow> string" where
  "stripNumber s =
     (if takeWhile isDigit s = [] then s
      else (case dropWhile isDigit s of
              [] \<Rightarrow> s
            | c # r \<Rightarrow> if c = CHR ''.'' \<or> c = CHR '')'' then dropWhile isSpace r else s))"

definition stripBullet :: "string \<Rightarrow> string" where
  "stripBullet s =
     (case s of
        [] \<Rightarrow> s
      | c # r \<Rightarrow> if c = CHR ''-'' \<or> c = CHR ''*'' then dropWhile isSpace r else s)"

definition cleanLine :: "string \<Rightarrow> string" where
  "cleanLine line = trim (stripBullet (stripNumber line))"

fun collectSuggestions :: "string list \<Rightarrow> string list \<Rightarrow> string list" where
  "collectSuggestions acc [] = acc"
| "collectSuggestions acc (line # lines) =
     (let cleaned = cleanLine line;
          acc' = (if length cleaned > 50 then acc @ [cleaned] else acc)
      in if length acc' = 3 then acc' else collectSuggestions acc' lines)"

definition parseSuggestions :: "string \<Rightarrow> string list" where
  "parseSuggestions content =
     collectSuggestions []
       (filter (\<lambda>line. length (trim line) > 0) (splitLines [] (trim content)))"

fun suggestionLoop :: "(string \<Rightarrow> fetch_outcome) \<Rightarrow> string list \<Rightarrow> error + string list" where
  "suggestionLoop fetch [] = Inl AllModelsFailed"
| "suggestionLoop fetch (model # models) =
     (case fetch model of
        Content c \<Rightarrow>
          (let suggestions = parseSuggestions c in
           if length suggestions = 3 then Inr suggestions
           else suggestionLoop fetch models)
      | _ \<Rightarrow> suggestionLoop fetch models)"

definition generateAISuggestions :: "(string \<Rightarrow> fetch_outcome) \<Rightarrow> error + string list" where
  "generateAISuggestions fetch = suggestionLoop fetch freeModels"

subsection \<open>Failing and unavailable providers\<close>

text \<open>What a completion yields once parsed, and when a provider counts as failed or
  unavailable: its key is missing, its request fails, or its text yields no question.\<close>

definition completionYield :: "completion \<Rightarrow> int \<Rightarrow> parsed_question list" where
  "completionYield c n = (case c of Inl e \<Rightarrow> [] | Inr raw \<Rightarrow> parseQuestionsFromText raw n)"

definition providerFails :: "string option \<Rightarrow> completion \<Rightarrow> int \<Rightarrow> bool" where
  "providerFails key c n \<longleftrightarrow> keyMissing key \<or> completionYield c n = []"

definition allProvidersFail :: "env \<Rightarrow> providers \<Rightarrow> int \<Rightarrow> bool" where
  "allProvidersFail ev net n \<longleftrightarrow>
     providerFails (OPENROUTER_API_KEY ev) (openRouterChat net) n \<and>
     providerFails (GROQ_API_KEY ev) (groqChat net) n \<and>
     (keyMissing (HUGGINGFACE_API_KEY ev) \<or>
      list_all (\<lambda>model. completionYield (hfTextGeneration net model) n = []) workingModels)"

definition modelFails :: "fetch_outcome \<Rightarrow> bool" where
  "modelFails out = (case out of Content c \<Rightarrow> length (parseSuggestions c) \<noteq> 3 | _ \<Rightarrow> True)"

text \<open>Concrete environments and networks.\<close>

definition noKeys :: env where
  "noKeys = \<lparr> OPENROUTER_API_KEY = None, GROQ_API_KEY = None, HUGGINGFACE_API_KEY = None \<rparr>"

definition allKeys :: env where
  "allKeys = \<lparr> OPENROUTER_API_KEY = Some ''k1'', GROQ_API_KEY = Some ''k2'',
               HUGGINGFACE_API_KEY = Some ''k3'' \<rparr>"

definition deadNetwork :: providers where
  "deadNetwork = \<lparr> openRouterChat = Inl ProviderFailure, groqChat = Inl ProviderFailure,
                   hfTextGeneration = (\<lambda>model. Inl ProviderFailure) \<rparr>"

definition groqOnly :: providers where
  "groqOnly = \<lparr> openRouterChat = Inl ProviderFailure, groqChat = Inr lowerCaseText,
                hfTextGeneration = (\<lambda>model. Inl ProviderFailure) \<rparr>"

definition offlineFetch :: "string \<Rightarrow> fetch_outcome" where
  "offlineFetch = (\<lambda>model. FetchRejected)"

section \<open>Quiz creation and submission (routes/quiz.js, routes/submission.js)\<close>

text \<open>QuestionSchema of models/Quiz.js and the part of a quiz the handlers read.\<close>

record quiz_question =
  qq_questionId :: string
  q :: string
  qq_options :: "string list"
  correctAnswer :: string
  difficulty :: string

record quiz =
  quizId :: string
  questions :: "quiz_question list"

datatype http_error = Unauthorized | BadRequest | NotFound | ServerError error

text \<open>Step 3 of POST /create-quiz: \<open>q.questionId || `q${index + 1}`\<close>, and the answer of
  the parsed question becomes the stored correctAnswer.\<close>

definition transformQuestion :: "string \<Rightarrow> nat \<Rightarrow> parsed_question \<Rightarrow> quiz_question" where
  "transformQuestion validDifficulty index pq =
     \<lparr> qq_questionId = (if questionId pq \<noteq> [] then questionId pq else ''q'' @ showNat (index + 1)),
       q = question pq,
       qq_options = options pq,
       correctAnswer = answer pq,
       difficulty = validDifficulty \<rparr>"

definition transformQuestions :: "string \<Rightarrow> parsed_question list \<Rightarrow> quiz_question list" where
  "transformQuestions validDifficulty generated =
     map (\<lambda>(index, pq). transformQuestion validDifficulty index pq)
         (zip [0 ..< length generated] generated)"

text \<open>POST /create-quiz up to the quiz data handed to the persistence layer. \<open>uid\<close> is
  \<open>req.user?.userId\<close>, \<open>newId\<close> the generated quiz id.\<close>

definition createQuiz ::
  "env \<Rightarrow> providers \<Rightarrow> string option \<Rightarrow> string \<Rightarrow> string \<Rightarrow> int \<Rightarrow> http_error + quiz" where
  "createQuiz ev net uid newId difficultyIn totalQs =
     (if keyMissing uid then Inl Unauthorized
      else
        (let validDifficulty = map toUpperCase difficultyIn in
         if validDifficulty \<notin> set [''EASY'', ''MEDIUM'', ''HARD''] then Inl BadRequest
         else
           (case generateQuestions ev net totalQs of
              Inl e \<Rightarrow> Inl (ServerError e)
            | Inr generated \<Rightarrow>
                if length generated = 0 then Inl (ServerError AllProvidersExhausted)
                else Inr \<lparr> quizId = newId,
                          questions = transformQuestions validDifficulty generated \<rparr>)))"

subsection \<open>Submissions\<close>

text \<open>A handler builds a submission document and hands it to the persistence layer, which
  validates the fields the schema requires (\<open>quizId\<close>, \<open>username\<close>, \<open>userId\<close>, and
  \<open>questionId\<close> and \<open>userResponse\<close> of every response; a required string must not be
  empty).\<close>

definition validSubmission :: "submission \<Rightarrow> bool" where
  "validSubmission s \<longleftrightarrow>
     s_quizId s \<noteq> [] \<and> \<not> keyMissing (username s) \<and> \<not> keyMissing (userId s) \<and>
     list_all (\<lambda>r. r_questionId r \<noteq> [] \<and> userResponse r \<noteq> []) (responses s)"

definition saveSubmission :: "submission \<Rightarrow> error + submission" where
  "saveSubmission s = (if validSubmission s then Inr s else Inl ValidationError)"

text \<open>The evaluation step of POST /:quizId/submit-ejs:
  \<open>question && question.correctAnswer === response.userResponse\<close> is undefined when the
  quiz has no such question.\<close>

definition evaluateResponse :: "quiz_question list \<Rightarrow> string \<times> string \<Rightarrow> response" where
  "evaluateResponse qs entry =
     (case entry of (qid, ans) \<Rightarrow>
        (let found = find (\<lambda>x. qq_questionId x = qid) qs in
         \<lparr> r_questionId = qid,
           userResponse = ans,
           r_correctAnswer = Some (case found of Some x \<Rightarrow> correctAnswer x | None \<Rightarrow> ''Unknown''),
           isCorrect = (case found of Some x \<Rightarrow> Some (correctAnswer x = ans) | None \<Rightarrow> None) \<rparr>))"

text \<open>\<open>evaluation.filter(r => r.isCorrect).length\<close>\<close>

definition countCorrect :: "response list \<Rightarrow> int" where
  "countCorrect evaluation = int (length (filter (\<lambda>r. isCorrect r = Some True) evaluation))"

definition fallbackSuggestions :: "string list" where
  "fallbackSuggestions =
     [''Review the questions you got wrong and understand the correct answers.'',
      ''Practice more questions in areas where you struggled.'',
      ''Consider studying the topic more thoroughly before attempting again.'']"

text \<open>\<open>req.user?.username || "guest"\<close>\<close>

definition orGuest :: "string option \<Rightarrow> string" where
  "orGuest uname = (case uname of None \<Rightarrow> ''guest'' | Some u \<Rightarrow> if u = [] then ''guest'' else u)"

text \<open>POST /:quizId/submit-ejs (the handler registered first): \<open>found\<close> is the result of
  \<open>Quiz.findOne\<close>, \<open>entries\<close> is \<open>Object.entries(req.body.responses)\<close>.\<close>

definition submitEjs ::
  "quiz option \<Rightarrow> string option \<Rightarrow> string option \<Rightarrow> string \<Rightarrow> (string \<times> string) list \<Rightarrow>
   (string \<Rightarrow> fetch_outcome) \<Rightarrow> http_error + submission" where
  "submitEjs found uname uid qzId entries fetch =
     (case found of
        None \<Rightarrow> Inl NotFound
      | Some qz \<Rightarrow>
          (let evaluation = map (evaluateResponse (questions qz)) entries;
               sc = countCorrect evaluation;
               aiSuggestions = (case generateAISuggestions fetch of
                                  Inr s \<Rightarrow> s
                                | Inl e \<Rightarrow> fallbackSuggestions)
           in Inr \<lparr> s_quizId = qzId,
                    username = Some (orGuest uname),
                    userId = (if keyMissing uid then None else uid),
                    responses = evaluation,
                    score = sc,
                    suggestions = aiSuggestions \<rparr>))"

text \<open>The handler registered second for the same path draws the evaluation at random:
  \<open>draws i\<close> is the pair of the letter and the flag drawn for the \<open>i\<close>-th response.\<close>

definition unavailableSuggestions :: "string list" where
  "unavailableSuggestions =
     [''Unable to generate personalized suggestions at this time.'',
      ''Please try submitting the quiz again.'',
      ''Contact support if this issue persists.'']"

definition randomResponse :: "(nat \<Rightarrow> string \<times> bool) \<Rightarrow> nat \<times> string \<times> string \<Rightarrow> response" where
  "randomResponse draws e =
     (case e of (i, qid, ans) \<Rightarrow>
        \<lparr> r_questionId = qid, userResponse = ans,
          r_correctAnswer = Some (fst (draws i)),
          isCorrect = Some (snd (draws i)) \<rparr>)"

definition submitEjsRandom ::
  "(nat \<Rightarrow> string \<times> bool) \<Rightarrow> string option \<Rightarrow> string option \<Rightarrow> string \<Rightarrow> (string \<times> string) list \<Rightarrow>
   (string \<Rightarrow> fetch_outcome) \<Rightarrow> http_error + submission" where
  "submitEjsRandom draws uname uid qzId entries fetch =
     (let evaluation = map (randomResponse draws) (zip [0 ..< length entries] entries);
          sc = countCorrect evaluation;
          aiSuggestions = (case generateAISuggestions fetch of
                             Inr s \<Rightarrow> s
                           | Inl e \<Rightarrow> unavailableSuggestions)
      in Inr \<lparr> s_quizId = qzId,
               username = Some (orGuest uname),
               userId = (if keyMissing uid then None else uid),
               responses = evaluation,
               score = sc,
               suggestions = aiSuggestions \<rparr>)"

text \<open>POST /:quizId/retry\<close>

definition retry :: "quiz option \<Rightarrow> http_error + submission" where
  "retry found =
     (case found of
        None \<Rightarrow> Inl NotFound
      | Some qz \<Rightarrow>
          Inr \<lparr> s_quizId = quizId qz, username = Some ''guest'', userId = None,
                responses = [], score = 0, suggestions = [] \<rparr>)"

text \<open>POST /:quizId/submit of routes/submission.js. \<open>byId\<close> is \<open>quiz.questions.id\<close>;
  \<open>aiService.evaluateAnswer\<close> is not among the exports of services/aiService.js, so
  the call throws a TypeError, as do \<open>quiz.questions\<close> and \<open>quiz._id\<close> on a null
  quiz and \<open>req.user.username\<close> on a request without a user. The fields \<open>user\<close>,
  \<open>answers\<close> and \<open>feedback\<close> are not in the schema and are dropped.\<close>

fun scoreAnswers :: "(string \<Rightarrow> quiz_question option) \<Rightarrow> string list \<Rightarrow> int \<Rightarrow> error + int" where
  "scoreAnswers byId [] totalScore = Inr totalScore"
| "scoreAnswers byId (qid # rest) totalScore =
     (case byId qid of
        None \<Rightarrow> scoreAnswers byId rest totalScore
      | Some x \<Rightarrow> Inl TypeError)"

definition submitAnswers ::
  "(string \<times> (string \<Rightarrow> quiz_question option)) option \<Rightarrow> string option option \<Rightarrow>
   string list \<Rightarrow> error + submission" where
  "submitAnswers found reqUser answerIds =
     (case found of
        None \<Rightarrow> Inl TypeError
      | Some (oid, byId) \<Rightarrow>
          (case scoreAnswers byId answerIds 0 of
             Inl e \<Rightarrow> Inl e
           | Inr totalScore \<Rightarrow>
               (case reqUser of
                  None \<Rightarrow> Inl TypeError
                | Some u \<Rightarrow>
                    Inr \<lparr> s_quizId = oid, username = None, userId = None,
                          responses = [], score = totalScore, suggestions = [] \<rparr>)))"

text \<open>The invariant of the data model: the score is the number of responses marked
  correct.\<close>

definition scoreMatches :: "submission \<Rightarrow> bool" where
  "scoreMatches s \<longleftrightarrow> score s = int (length (filter (\<lambda>r. isCorrect r = Some True) (responses s)))"

text \<open>A quiz of two questions, used as a concrete input.\<close>

definition sampleQuiz :: quiz where
  "sampleQuiz =
     \<lparr> quizId = ''quiz_1'',
       questions =
         [\<lparr> qq_questionId = ''q1'', q = ''What is 2 + 2?'',
            qq_options = [''A) 3'', ''B) 4'', ''C) 5'', ''D) 6''],
            correctAnswer = ''B'', difficulty = ''EASY'' \<rparr>,
          \<lparr> qq_questionId = ''q2'', q = ''What is 3 + 3?'',
            qq_options = [''A) 6'', ''B) 7'', ''C) 8'', ''D) 9''],
            correctAnswer = ''A'', difficulty = ''EASY'' \<rparr>] \<rparr>"

definition noSuchQuestion :: "string \<Rightarrow> quiz_question option" where
  "noSuchQuestion = (\<lambda>qid. None)"

definition coinDraws :: "nat \<Rightarrow> string \<times> bool" where
  "coinDraws = (\<lambda>i. (''A'', even i))"

definition sampleEntries :: "(string \<times> string) list" where
  "sampleEntries = [(''q1'', ''B''), (''q2'', ''C''), (''q9'', ''A'')]"

section \<open>Properties of the estimator\<close>

subsection \<open>Rounding\<close>





subsection \<open>The percentages never leave the table\<close>




lemma bandTriples_sum: "(e, m, h) \<in> bandTriples \<Longrightarrow> e + m + h = 100"
  by (auto simp: bandTriples_def)







lemma exampleHistory_perf: "recentPerformance exampleHistory = [90, 92, 95, 40, 35]"
  by (simp add: exampleHistory_def recentPerformance_def percentage_def attempt_def)

subsection \<open>The balanced split in closed form\<close>





section \<open>Properties of the parser\<close>

lemma toUpperCase_AD:
  "isLetterAD g \<Longrightarrow> [toUpperCase g] \<in> bareLetters"
proof -
  have u: "toUpperCase CHR ''a'' = CHR ''A''" "toUpperCase CHR ''b'' = CHR ''B''"
    "toUpperCase CHR ''c'' = CHR ''C''" "toUpperCase CHR ''d'' = CHR ''D''"
    "toUpperCase CHR ''A'' = CHR ''A''" "toUpperCase CHR ''B'' = CHR ''B''"
    "toUpperCase CHR ''C'' = CHR ''C''" "toUpperCase CHR ''D'' = CHR ''D''"
    by code_simp+
  assume "isLetterAD g"
  then show ?thesis
    unfolding isLetterAD_def bareLetters_def by (auto simp: u)
qed

lemma isLetterAD_not_space: "isLetterAD c \<Longrightarrow> \<not> isSpace c"
  by (auto simp: isLetterAD_def isSpace_def)

lemma dropWhile_snoc2:
  assumes "\<not> P p"
  shows "\<exists>zs. dropWhile P (xs @ [p, c]) = zs @ [p, c]"
proof (cases "\<forall>x \<in> set xs. P x")
  case True
  then have "dropWhile P (xs @ [p, c]) = dropWhile P [p, c]"
    by (simp add: dropWhile_append2)
  with assms show ?thesis by simp
next
  case False
  then obtain x where "x \<in> set xs" "\<not> P x" by blast
  then have "dropWhile P (xs @ [p, c]) = dropWhile P xs @ [p, c]"
    by (simp add: dropWhile_append1)
  then show ?thesis by blast
qed

lemma trim_keeps_marker:
  assumes "\<not> isSpace c" and "\<not> isSpace p"
  shows "\<exists>r'. trim (c # p # r) = c # p # r'"
proof -
  from dropWhile_snoc2 [of isSpace p "rev r" c] assms
  obtain zs where "dropWhile isSpace (rev r @ [p, c]) = zs @ [p, c]" by blast
  then have "trim (c # p # r) = c # p # rev zs"
    using assms by (simp add: trim_def)
  then show ?thesis by blast
qed

lemma matchOption_marker:
  "matchOption s = Some m \<Longrightarrow> \<exists>c r. m = c # CHR '')'' # r \<and> isLetterAD c"
  by (auto simp: matchOption_def split: list.splits if_splits)

lemma optionMatches_marker:
  "m \<in> set (optionMatches k s) \<Longrightarrow> \<exists>c r. m = c # CHR '')'' # r \<and> isLetterAD c"
proof (induction k s rule: optionMatches.induct)
  case (3 c cs)
  then show ?case
    by (cases "matchOption (c # cs)") (auto dest: matchOption_marker)
qed simp_all

lemma searchAnswer_letter: "searchAnswer kw s = Some g \<Longrightarrow> isLetterAD g"
proof (induction s)
  case (Cons c cs)
  then show ?case
    by (cases "matchAnswerAt kw (c # cs)")
       (auto simp: matchAnswerAt_def split: if_splits list.splits)
qed simp

lemma trim_marked:
  assumes "\<exists>c r. m = c # CHR '')'' # r \<and> isLetterAD c"
  shows "markedOption (trim m)"
proof -
  from assms obtain c r where m: "m = c # CHR '')'' # r" and c: "isLetterAD c" by blast
  have "\<not> isSpace (CHR '')'')" by (simp add: isSpace_def)
  with trim_keeps_marker [of c "CHR '')''" r] isLetterAD_not_space [OF c]
  obtain r' where "trim m = c # CHR '')'' # r'" unfolding m by blast
  with c show ?thesis by (simp add: markedOption_def)
qed

lemma parseQuestionBlock_Inr:
  assumes "parseQuestionBlock block n = Inr pq"
  shows "question pq \<noteq> [] \<and> length (options pq) = 4 \<and>
         answer pq \<in> bareLetters \<and>
         list_all markedOption (options pq) \<and>
         options pq = map trim (take 4 (optionMatches 0 block)) \<and>
         questionId pq = ''q'' @ showNat n"
proof -
  from assms obtain g where g: "matchQuestionText [] block = Some g"
    by (auto simp: parseQuestionBlock_def split: option.splits)
  from assms g have q: "trim (stripQMarker g) \<noteq> []"
    by (auto simp: parseQuestionBlock_def Let_def split: if_splits)
  from assms g q have l: "4 \<le> length (optionMatches 0 block)"
    by (auto simp: parseQuestionBlock_def Let_def split: if_splits)
  have ans: "(case (case searchAnswer ''ANSWER:'' block of Some g \<Rightarrow> Some g
                    | None \<Rightarrow> searchAnswer ''CORRECT:'' block) of
               Some g \<Rightarrow> [toUpperCase g] | None \<Rightarrow> ''A'') \<in> bareLetters"
    using toUpperCase_AD searchAnswer_letter
    by (auto simp: bareLetters_def split: option.splits)
  have pq: "pq = \<lparr> questionId = ''q'' @ showNat n, question = trim (stripQMarker g),
            options = map trim (take 4 (optionMatches 0 block)),
            answer = (case (case searchAnswer ''ANSWER:'' block of Some g \<Rightarrow> Some g
                    | None \<Rightarrow> searchAnswer ''CORRECT:'' block) of
               Some g \<Rightarrow> [toUpperCase g] | None \<Rightarrow> ''A'') \<rparr>"
    using assms g q l by (simp add: parseQuestionBlock_def Let_def)
  have "list_all markedOption (map trim (take 4 (optionMatches 0 block)))"
    unfolding list_all_iff
    by (auto intro!: trim_marked optionMatches_marker dest: in_set_takeD)
  with q l ans show ?thesis
    unfolding pq by simp
qed

lemma parseQuestionBlock_num:
  "(\<exists>pq. parseQuestionBlock block n = Inr pq) \<longleftrightarrow> (\<exists>pq. parseQuestionBlock block m = Inr pq)"
  by (auto simp: parseQuestionBlock_def Let_def split: option.splits if_splits)

lemma accepts_iff: "accepts b \<longleftrightarrow> (\<exists>pq. parseQuestionBlock (trim b) n = Inr pq)"
proof -
  have "accepts b \<longleftrightarrow> (\<exists>pq. parseQuestionBlock (trim b) 1 = Inr pq)"
    by (auto simp: accepts_def split: sum.splits)
  then show ?thesis
    using parseQuestionBlock_num [of "trim b" 1 n] by simp
qed

lemma parseQuestionBlock_empty: "parseQuestionBlock [] n = Inl NoQuestionText"
  by (simp add: parseQuestionBlock_def)

lemma parseLoop_Cons:
  "parseLoop i (b # bs) =
     (case parseQuestionBlock (trim b) (i + 1) of
        Inl e \<Rightarrow> parseLoop (Suc i) bs
      | Inr pq \<Rightarrow> pq # parseLoop (Suc i) bs)"
proof (cases "parseQuestionBlock (trim b) (i + 1)")
  case (Inl e)
  then show ?thesis by (simp add: Let_def)
next
  case (Inr pq)
  then have "trim b \<noteq> []" using parseQuestionBlock_empty [of "i + 1"] by auto
  moreover from parseQuestionBlock_Inr [OF Inr]
  have "question pq \<noteq> []" "length (options pq) = 4" by blast+
  ultimately show ?thesis using Inr by (simp add: Let_def)
qed

lemma parseLoop_length: "length (parseLoop i bs) = length (filter accepts bs)"
proof (induction bs arbitrary: i)
  case Nil
  show ?case by simp
next
  case (Cons b bs)
  show ?case
    unfolding parseLoop_Cons
    using Cons [of "Suc i"] accepts_iff [of b "i + 1"]
    by (cases "parseQuestionBlock (trim b) (i + 1)") simp_all
qed

lemma parseLoop_member:
  "pq \<in> set (parseLoop i bs) \<Longrightarrow> \<exists>b n. b \<in> set bs \<and> parseQuestionBlock (trim b) n = Inr pq"
proof (induction bs arbitrary: i)
  case Nil
  then show ?case by simp
next
  case (Cons b bs)
  show ?case
  proof (cases "parseQuestionBlock (trim b) (i + 1)")
    case (Inl e)
    with Cons.prems have "pq \<in> set (parseLoop (Suc i) bs)"
      unfolding parseLoop_Cons by simp
    from Cons.IH [OF this] show ?thesis by auto
  next
    case (Inr x)
    with Cons.prems have "pq = x \<or> pq \<in> set (parseLoop (Suc i) bs)"
      unfolding parseLoop_Cons by simp
    then show ?thesis
    proof
      assume "pq = x"
      with Inr have "parseQuestionBlock (trim b) (i + 1) = Inr pq" by simp
      then show ?thesis by (intro exI [of _ b] exI [of _ "i + 1"]) simp
    next
      assume "pq \<in> set (parseLoop (Suc i) bs)"
      from Cons.IH [OF this] show ?thesis by auto
    qed
  qed
qed

lemma take_expected:
  "take (nat (min (int (length bs)) n)) bs = take (nat n) bs"
  by (cases "int (length bs) \<le> n") (auto simp: min_def)

lemma parse_length:
  "length (parseQuestionsFromText raw n)
     = length (filter accepts (take (nat n) (questionBlocks raw)))"
  by (simp add: parseQuestionsFromText_def Let_def parseLoop_length take_expected)

lemma parse_member:
  assumes "pq \<in> set (parseQuestionsFromText raw n)"
  shows "\<exists>b k. b \<in> set (questionBlocks raw) \<and> parseQuestionBlock (trim b) k = Inr pq"
proof -
  from assms have "pq \<in> set (parseLoop 0 (take (nat n) (questionBlocks raw)))"
    by (simp add: parseQuestionsFromText_def Let_def take_expected)
  from parseLoop_member [OF this] show ?thesis
    by (blast dest: in_set_takeD)
qed

lemma markedOption_not_bare: "markedOption opt \<Longrightarrow> opt \<notin> bareLetters"
  by (auto simp: markedOption_def bareLetters_def split: list.splits)

lemma parsed_answer_not_option:
  assumes "parseQuestionBlock block k = Inr pq"
  shows "answer pq \<notin> set (options pq)"
proof
  assume "answer pq \<in> set (options pq)"
  moreover from parseQuestionBlock_Inr [OF assms]
  have "answer pq \<in> bareLetters" "list_all markedOption (options pq)" by blast+
  ultimately show False
    using markedOption_not_bare by (auto simp: list_all_iff)
qed

lemma transformQuestions_member:
  assumes "qq \<in> set (transformQuestions d generated)"
  shows "\<exists>i pq. pq \<in> set generated \<and> qq = transformQuestion d i pq"
proof -
  from assms obtain i pq where "(i, pq) \<in> set (zip [0 ..< length generated] generated)"
    and "qq = transformQuestion d i pq"
    by (auto simp: transformQuestions_def)
  then show ?thesis
    by (blast dest: set_zip_rightD)
qed

lemma evaluateResponse_correct:
  assumes "isCorrect (evaluateResponse qs entry) = Some True"
  shows "\<exists>qq \<in> set qs. qq_questionId qq = fst entry \<and> correctAnswer qq = snd entry"
proof -
  obtain qid ans where e: "entry = (qid, ans)" by (cases entry)
  from assms obtain qq where f: "find (\<lambda>x. qq_questionId x = qid) qs = Some qq"
    and c: "correctAnswer qq = ans"
    by (auto simp: evaluateResponse_def e Let_def split: option.splits)
  from f have "qq \<in> set qs" "qq_questionId qq = qid"
    by (auto simp: find_Some_iff)
  with c e show ?thesis by auto
qed

section \<open>Properties of the gateway\<close>

lemma hfLoop_None:
  "hfLoop net n ms = None \<longleftrightarrow> list_all (\<lambda>model. completionYield (hfTextGeneration net model) n = []) ms"
  by (induction ms) (auto simp: completionYield_def Let_def split: sum.splits)

lemma hfLoop_Some:
  "hfLoop net n ms = Some qs \<Longrightarrow>
     qs \<noteq> [] \<and> (\<exists>model \<in> set ms. qs = completionYield (hfTextGeneration net model) n)"
  by (induction ms) (auto simp: completionYield_def Let_def split: sum.splits if_splits)

lemma tryOpenRouter_yield:
  "tryOpenRouterGeneration ev net n =
     (if keyMissing (OPENROUTER_API_KEY ev) then None
      else case openRouterChat net of Inl e \<Rightarrow> None
           | Inr raw \<Rightarrow> Some (completionYield (openRouterChat net) n))"
  by (simp add: tryOpenRouterGeneration_def completionYield_def split: sum.splits)

lemma tryGroq_yield:
  "tryGroqGeneration ev net n =
     (if keyMissing (GROQ_API_KEY ev) then None
      else case groqChat net of Inl e \<Rightarrow> None
           | Inr raw \<Rightarrow> Some (completionYield (groqChat net) n))"
  by (simp add: tryGroqGeneration_def completionYield_def split: sum.splits)

lemma usable_openRouter:
  "usable (tryOpenRouterGeneration ev net n) \<longleftrightarrow>
     \<not> providerFails (OPENROUTER_API_KEY ev) (openRouterChat net) n"
  by (auto simp: usable_def tryOpenRouterGeneration_def providerFails_def completionYield_def
      split: sum.splits)

lemma usable_groq:
  "usable (tryGroqGeneration ev net n) \<longleftrightarrow>
     \<not> providerFails (GROQ_API_KEY ev) (groqChat net) n"
  by (auto simp: usable_def tryGroqGeneration_def providerFails_def completionYield_def
      split: sum.splits)

lemma usable_hf:
  "usable (tryHuggingFaceGeneration ev net n) \<longleftrightarrow>
     \<not> (keyMissing (HUGGINGFACE_API_KEY ev) \<or>
        list_all (\<lambda>model. completionYield (hfTextGeneration net model) n = []) workingModels)"
proof (cases "hfLoop net n workingModels")
  case None
  then show ?thesis
    using hfLoop_None [of net n workingModels]
    by (simp add: usable_def tryHuggingFaceGeneration_def)
next
  case (Some qs)
  with hfLoop_Some [OF Some] hfLoop_None [of net n workingModels] show ?thesis
    by (auto simp: usable_def tryHuggingFaceGeneration_def)
qed

lemma generateQuestions_usable:
  "generateQuestions ev net n =
     (if usable (tryOpenRouterGeneration ev net n)
      then (case tryOpenRouterGeneration ev net n of Some qs \<Rightarrow> Inr qs | None \<Rightarrow> Inl AllProvidersExhausted)
      else if usable (tryGroqGeneration ev net n)
      then (case tryGroqGeneration ev net n of Some qs \<Rightarrow> Inr qs | None \<Rightarrow> Inl AllProvidersExhausted)
      else if usable (tryHuggingFaceGeneration ev net n)
      then (case tryHuggingFaceGeneration ev net n of Some qs \<Rightarrow> Inr qs | None \<Rightarrow> Inl AllProvidersExhausted)
      else Inl AllProvidersExhausted)"
  by (auto simp: generateQuestions_def usable_def split: option.splits list.splits)

lemma suggestionLoop_fails:
  "list_all (\<lambda>model. modelFails (fetch model)) ms \<Longrightarrow> suggestionLoop fetch ms = Inl AllModelsFailed"
  by (induction ms) (auto simp: modelFails_def Let_def split: fetch_outcome.splits)

lemma suggestionLoop_Inr:
  "suggestionLoop fetch ms = Inr s \<Longrightarrow>
     length s = 3 \<and> (\<exists>model \<in> set ms. \<exists>c. fetch model = Content c \<and> s = parseSuggestions c)"
  by (induction ms) (auto simp: Let_def split: fetch_outcome.splits if_splits)

lemma suggestionLoop_Inl:
  "suggestionLoop fetch ms = Inl e \<Longrightarrow> e = AllModelsFailed"
  by (induction ms) (auto simp: Let_def split: fetch_outcome.splits if_splits)

lemma generateQuestions_Inr:
  assumes "generateQuestions ev net n = Inr qs"
  shows "qs \<noteq> [] \<and>
      (qs = completionYield (openRouterChat net) n \<or> qs = completionYield (groqChat net) n \<or>
       (\<exists>model \<in> set workingModels. qs = completionYield (hfTextGeneration net model) n))"
proof -
  from assms consider
      (o) "tryOpenRouterGeneration ev net n = Some qs" "usable (Some qs)"
    | (g) "tryGroqGeneration ev net n = Some qs" "usable (Some qs)"
    | (h) "tryHuggingFaceGeneration ev net n = Some qs" "usable (Some qs)"
    unfolding generateQuestions_usable
    by (auto split: if_splits option.splits)
  then show ?thesis
  proof cases
    case o
    then show ?thesis
      by (auto simp: tryOpenRouter_yield usable_def split: if_splits sum.splits)
  next
    case g
    then show ?thesis
      by (auto simp: tryGroq_yield usable_def split: if_splits sum.splits)
  next
    case h
    then have "hfLoop net n workingModels = Some qs"
      by (auto simp: tryHuggingFaceGeneration_def split: if_splits)
    from hfLoop_Some [OF this] show ?thesis by blast
  qed
qed

lemma generateQuestions_parsed:
  assumes "generateQuestions ev net n = Inr qs"
  shows "\<exists>raw. qs = parseQuestionsFromText raw n"
proof -
  from generateQuestions_Inr [OF assms] obtain c where "qs \<noteq> []" "qs = completionYield c n"
    by blast
  then show ?thesis
    by (cases c) (auto simp: completionYield_def)
qed

section \<open>Properties of the submission handlers\<close>

lemma scoreAnswers_Inr: "scoreAnswers byId ids t = Inr t' \<Longrightarrow> t' = t"
  by (induction ids) (auto split: option.splits)

lemma countCorrect_matches:
  "scoreMatches \<lparr> s_quizId = a, username = b, userId = c, responses = ev,
                   score = countCorrect ev, suggestions = d \<rparr>"
  by (simp add: scoreMatches_def countCorrect_def)

lemma createQuiz_questions:
  assumes "createQuiz ev net uid newId difficultyIn n = Inr qz"
  shows "\<exists>raw d. questions qz = transformQuestions d (parseQuestionsFromText raw n)"
proof -
  from assms obtain generated where g: "generateQuestions ev net n = Inr generated"
    and q: "questions qz = transformQuestions (map toUpperCase difficultyIn) generated"
    by (auto simp: createQuiz_def Let_def split: if_splits sum.splits)
  from generateQuestions_parsed [OF g] q show ?thesis by blast
qed

lemma parsed_question_shape:
  assumes "pq \<in> set (parseQuestionsFromText raw n)"
  shows "answer pq \<in> bareLetters \<and> length (options pq) = 4 \<and>
      list_all markedOption (options pq) \<and> answer pq \<notin> set (options pq) \<and>
      (\<exists>b \<in> set (questionBlocks raw).
         options pq = map trim (take 4 (optionMatches 0 (trim b))))"
proof -
  from parse_member [OF assms] obtain b k where b: "b \<in> set (questionBlocks raw)"
    and k: "parseQuestionBlock (trim b) k = Inr pq" by blast
  from parseQuestionBlock_Inr [OF k] parsed_answer_not_option [OF k] b
  show ?thesis by blast
qed

lemma quiz_question_shape:
  assumes "qq \<in> set (transformQuestions d (parseQuestionsFromText raw n))"
  shows "correctAnswer qq \<in> bareLetters \<and> list_all markedOption (qq_options qq) \<and>
      correctAnswer qq \<notin> set (qq_options qq)"
proof -
  from transformQuestions_member [OF assms] obtain i pq
    where "pq \<in> set (parseQuestionsFromText raw n)" and "qq = transformQuestion d i pq"
    by blast
  with parsed_question_shape [of pq raw n] show ?thesis
    by (simp add: transformQuestion_def)
qed

lemma correct_only_bare_letter:
  assumes "isCorrect (evaluateResponse (transformQuestions d (parseQuestionsFromText raw n)) entry)
      = Some True"
  shows "snd entry \<in> bareLetters \<and>
    (\<exists>qq \<in> set (transformQuestions d (parseQuestionsFromText raw n)).
       qq_questionId qq = fst entry \<and> correctAnswer qq = snd entry \<and>
       snd entry \<notin> set (qq_options qq))"
proof -
  from evaluateResponse_correct [OF assms] obtain qq
    where q: "qq \<in> set (transformQuestions d (parseQuestionsFromText raw n))"
    and "qq_questionId qq = fst entry" "correctAnswer qq = snd entry" by blast
  with quiz_question_shape [OF q] show ?thesis by auto
qed

section \<open>Claims about the estimator\<close>






text \<open>
  C5. The claim: the sequence [90,92,95,40,35] gives the trend "declining", the mean 70.4,
  the base triple {30,50,20} and, after the declining nudge, {35,45,15}. On the code the
  nudge moves 5 from hard to easy and leaves medium alone: the first half [90,92] has mean
  91, the second half [95,40,35] has mean 170/3, the trend is declining, the mean is 352/5,
  the base triple is (30,50,20) and the percentages before the clamp are (35,50,15).
\<close>

theorem example_history_metrics:
  "recentPerformance exampleHistory = [90, 92, 95, 40, 35] \<and>
   sum_list (take 2 [90, 92, 95, 40, 35 :: rat]) / 2 = 91 \<and>
   sum_list (drop 2 [90, 92, 95, 40, 35 :: rat]) / 3 = 170 / 3 \<and>
   calculateTrend [90, 92, 95, 40, 35] = Declining \<and>
   averageRecent [90, 92, 95, 40, 35] = 352 / 5 \<and>
   trend (calculatePerformanceMetrics exampleHistory) = Declining \<and>
   averageRecentPerformage (calculatePerformanceMetrics exampleHistory) = 352 / 5 \<and>
   bandPercentages (352 / 5) Declining = (30, 50, 20) \<and>
   preClampPercentages (calculatePerformanceMetrics exampleHistory) = (35, 50, 15)"
  by (simp add: calculatePerformanceMetrics_def Let_def exampleHistory_perf calculateTrend_def
      averageRecent_def preClampPercentages_def bandPercentages_def trendAdjust_def)

theorem example_history_metrics_witness:
  "preClampPercentages (calculatePerformanceMetrics exampleHistory) = (35, 50, 15)"
  using example_history_metrics by simp

theorem example_history_counterexample:
  "preClampPercentages (calculatePerformanceMetrics exampleHistory) \<noteq> (35, 45, 15)"
  by (simp add: calculatePerformanceMetrics_def Let_def exampleHistory_perf calculateTrend_def
      averageRecent_def preClampPercentages_def bandPercentages_def trendAdjust_def)

text \<open>
  C6. The claim: in the band from 80 a declining trend gives {30,40,30} instead of
  {20,40,40}, and in the band below 40 an improving trend gives {50,30,20} instead of
  {60,30,10}. On the code the first half holds; in the band below 40 an improving trend
  takes 10 points from easy and gives 5 to medium and 5 to hard: (50,35,15). The nudge of
  step 5 comes afterwards and gives (35,40,25) and (45,35,20).
\<close>

theorem band_trend_shift:
  "(80 \<le> p \<longrightarrow>
      bandPercentages p Stable = (20, 40, 40) \<and> bandPercentages p Improving = (20, 40, 40) \<and>
      bandPercentages p Declining = (30, 40, 30) \<and>
      trendAdjust Declining (bandPercentages p Declining) = (35, 40, 25)) \<and>
   (p < 40 \<longrightarrow>
      bandPercentages p Stable = (60, 30, 10) \<and> bandPercentages p Declining = (60, 30, 10) \<and>
      bandPercentages p Improving = (50, 35, 15) \<and>
      trendAdjust Improving (bandPercentages p Improving) = (45, 35, 20))"
  by (simp add: bandPercentages_def trendAdjust_def)

theorem band_trend_shift_witness:
  "bandPercentages 85 Declining = (30, 40, 30) \<and> bandPercentages 30 Improving = (50, 35, 15)"
  using band_trend_shift [of 85] band_trend_shift [of 30] by simp

theorem band_trend_shift_counterexample:
  "bandPercentages 30 Improving \<noteq> (50, 30, 20)"
  by (simp add: bandPercentages_def)



text \<open>
  C9. calculateAdaptiveDifficulty never hands an error to its caller: for every store,
  user, subject and total it returns a distribution, and whenever its body fails, in
  particular when the submission query is rejected, the result is the balanced
  distribution.
\<close>

theorem never_propagates_error:
  "(\<exists>d. calculateAdaptiveDifficulty f uid subject T = Inr d) \<and>
   (\<forall>e. adaptiveDifficultyBody f uid subject T = Inl e \<longrightarrow>
        calculateAdaptiveDifficulty f uid subject T = Inr (getBalancedDistribution T)) \<and>
   (\<forall>e. f uid = Inl e \<longrightarrow>
        calculateAdaptiveDifficulty f uid subject T = Inr (getBalancedDistribution T))"
  by (auto simp: calculateAdaptiveDifficulty_def adaptiveDifficultyBody_def
      split: sum.splits option.splits)

theorem never_propagates_error_witness:
  "failingStore ''u1'' = Inl PersistenceError \<and>
   calculateAdaptiveDifficulty failingStore ''u1'' ''math'' 10
     = Inr \<lparr> easy = 4, medium = 4, hard = 2, reasoning = NewUser \<rparr>"
proof -
  have f: "failingStore ''u1'' = Inl PersistenceError"
    by (simp add: failingStore_def)
  have "calculateAdaptiveDifficulty failingStore ''u1'' ''math'' 10 = Inr (getBalancedDistribution 10)"
    using never_propagates_error [of failingStore "''u1''" "''math''" 10] f by blast
  then show ?thesis
    using f by (simp add: getBalancedDistribution_def)
qed

section \<open>Claims about the parser\<close>

text \<open>
  C2. The claim: with expectedCount = 3, a text of 5 well-formed blocks yields exactly 3
  items, and a block that lacks its 4th option is dropped without counting toward the 3.
  On the code the loop runs over the first 3 blocks only: the number of items is the
  number of accepted blocks among the first \<open>expectedCount\<close> blocks, so five blocks whose
  first three are accepted give exactly 3 items, and a block among the first three that
  is not accepted leaves fewer than 3 items. Every item returned has a non-empty question
  text and exactly four options.
\<close>

theorem parser_examines_first_blocks:
  "length (parseQuestionsFromText raw n)
     = length (filter accepts (take (nat n) (questionBlocks raw))) \<and>
   (\<forall>pq \<in> set (parseQuestionsFromText raw n). question pq \<noteq> [] \<and> length (options pq) = 4) \<and>
   (length (questionBlocks raw) = 5 \<and> list_all accepts (take 3 (questionBlocks raw))
      \<longrightarrow> length (parseQuestionsFromText raw 3) = 3) \<and>
   (length (questionBlocks raw) = 5 \<and> \<not> list_all accepts (take 3 (questionBlocks raw))
      \<longrightarrow> length (parseQuestionsFromText raw 3) < 3)"
proof (intro conjI ballI impI)
  show "length (parseQuestionsFromText raw n)
     = length (filter accepts (take (nat n) (questionBlocks raw)))"
    by (rule parse_length)
next
  fix pq assume "pq \<in> set (parseQuestionsFromText raw n)"
  from parse_member [OF this] obtain b k where "parseQuestionBlock (trim b) k = Inr pq"
    by blast
  from parseQuestionBlock_Inr [OF this] show "question pq \<noteq> []" "length (options pq) = 4"
    by blast+
next
  assume a: "length (questionBlocks raw) = 5 \<and> list_all accepts (take 3 (questionBlocks raw))"
  then have "filter accepts (take 3 (questionBlocks raw)) = take 3 (questionBlocks raw)"
    by (simp add: list_all_iff)
  with a show "length (parseQuestionsFromText raw 3) = 3"
    using parse_length [of raw 3] by simp
next
  assume a: "length (questionBlocks raw) = 5 \<and> \<not> list_all accepts (take 3 (questionBlocks raw))"
  then obtain b where "b \<in> set (take 3 (questionBlocks raw))" "\<not> accepts b"
    by (auto simp: list_all_iff)
  then have "length (filter accepts (take 3 (questionBlocks raw)))
      < length (take 3 (questionBlocks raw))"
    by (rule length_filter_less)
  with a show "length (parseQuestionsFromText raw 3) < 3"
    using parse_length [of raw 3] by simp
qed

theorem parser_examines_first_blocks_witness:
  "length (questionBlocks fiveBlocks) = 5 \<and>
   list_all accepts (take 3 (questionBlocks fiveBlocks)) \<and>
   length (parseQuestionsFromText fiveBlocks 3) = 3 \<and>
   length (questionBlocks fiveBlocksOneShort) = 5 \<and>
   \<not> list_all accepts (take 3 (questionBlocks fiveBlocksOneShort)) \<and>
   length (parseQuestionsFromText fiveBlocksOneShort 3) < 3"
proof -
  have a: "length (questionBlocks fiveBlocks) = 5 \<and>
      list_all accepts (take 3 (questionBlocks fiveBlocks))"
    by code_simp
  have b: "length (questionBlocks fiveBlocksOneShort) = 5 \<and>
      \<not> list_all accepts (take 3 (questionBlocks fiveBlocksOneShort))"
    by code_simp
  from a b parser_examines_first_blocks [of fiveBlocks 3]
    parser_examines_first_blocks [of fiveBlocksOneShort 3]
  show ?thesis by blast
qed

text \<open>Five blocks, the second without option D, the other four accepted: the parser
  returns the first and the third block, two items.\<close>

theorem parser_examines_first_blocks_counterexample:
  "length (questionBlocks fiveBlocksOneShort) = 5 \<and>
   map accepts (questionBlocks fiveBlocksOneShort) = [True, False, True, True, True] \<and>
   parseQuestionBlock (trim (questionBlocks fiveBlocksOneShort ! 1)) 2 = Inl (TooFewOptions 3) \<and>
   map questionId (parseQuestionsFromText fiveBlocksOneShort 3) = [''q1'', ''q3''] \<and>
   length (parseQuestionsFromText fiveBlocksOneShort 3) \<noteq> 3"
  by code_simp

text \<open>
  C10. The claim: every parsed question has as answer one bare letter of A, B, C, D, and
  each of its four options keeps its "A)", "B)", "C)" or "D)" prefix, so the stored
  correctAnswer never equals one of the options and a response is marked correct only
  when it is the bare letter. On the code the option pattern is matched without regard
  to case, so a marker may be a lower-case letter. What holds: the answer is one of
  ''A'', ''B'', ''C'', ''D''; there are four options, each the trimmed text of a whole
  match, beginning with a letter a-d or A-D and a closing parenthesis; the answer is
  none of the options; the same holds for correctAnswer and options of every question
  of a quiz that POST /create-quiz builds; and a response evaluated against such a quiz
  is marked correct only if it is the bare letter stored for a question with its id.
\<close>

theorem answer_is_bare_letter:
  "(\<forall>pq \<in> set (parseQuestionsFromText raw n).
      answer pq \<in> bareLetters \<and> length (options pq) = 4 \<and>
      list_all markedOption (options pq) \<and> answer pq \<notin> set (options pq) \<and>
      (\<exists>b \<in> set (questionBlocks raw).
         options pq = map trim (take 4 (optionMatches 0 (trim b))))) \<and>
   (createQuiz ev net uid newId difficultyIn n = Inr qz \<longrightarrow>
      (\<forall>qq \<in> set (questions qz).
         correctAnswer qq \<in> bareLetters \<and> list_all markedOption (qq_options qq) \<and>
         correctAnswer qq \<notin> set (qq_options qq)) \<and>
      (isCorrect (evaluateResponse (questions qz) entry) = Some True \<longrightarrow>
         snd entry \<in> bareLetters \<and>
         (\<exists>qq \<in> set (questions qz).
            qq_questionId qq = fst entry \<and> correctAnswer qq = snd entry \<and>
            snd entry \<notin> set (qq_options qq))))"
proof (intro conjI impI ballI)
  fix pq assume "pq \<in> set (parseQuestionsFromText raw n)"
  from parsed_question_shape [OF this]
  show "answer pq \<in> bareLetters" "length (options pq) = 4"
    "list_all markedOption (options pq)" "answer pq \<notin> set (options pq)"
    "\<exists>b \<in> set (questionBlocks raw).
         options pq = map trim (take 4 (optionMatches 0 (trim b)))"
    by blast+
next
  fix qq
  assume "createQuiz ev net uid newId difficultyIn n = Inr qz" and "qq \<in> set (questions qz)"
  with createQuiz_questions [of ev net uid newId difficultyIn n qz] quiz_question_shape [of qq]
  show "correctAnswer qq \<in> bareLetters" "list_all markedOption (qq_options qq)"
    "correctAnswer qq \<notin> set (qq_options qq)"
    by auto
next
  assume "createQuiz ev net uid newId difficultyIn n = Inr qz"
    and "isCorrect (evaluateResponse (questions qz) entry) = Some True"
  with createQuiz_questions [of ev net uid newId difficultyIn n qz]
    correct_only_bare_letter [of _ _ n entry]
  show "snd entry \<in> bareLetters"
    and "\<exists>qq \<in> set (questions qz).
            qq_questionId qq = fst entry \<and> correctAnswer qq = snd entry \<and>
            snd entry \<notin> set (qq_options qq)"
    by auto
qed

theorem answer_is_bare_letter_witness:
  "map answer (parseQuestionsFromText lowerCaseText 1) = [''B''] \<and>
   isCorrect (evaluateResponse
      (questions (projr (createQuiz allKeys groqOnly (Some ''u1'') ''quiz_1'' ''easy'' 1)))
      (''q1'', ''B'')) = Some True \<and>
   isCorrect (evaluateResponse
      (questions (projr (createQuiz allKeys groqOnly (Some ''u1'') ''quiz_1'' ''easy'' 1)))
      (''q1'', ''b) 4'')) = Some False \<and>
   createQuiz allKeys groqOnly (Some ''u1'') ''quiz_1'' ''easy'' 1
     = Inr (projr (createQuiz allKeys groqOnly (Some ''u1'') ''quiz_1'' ''easy'' 1)) \<and>
   snd (''q1'', ''B'') \<in> bareLetters"
proof -
  have a: "map answer (parseQuestionsFromText lowerCaseText 1) = [''B''] \<and>
   createQuiz allKeys groqOnly (Some ''u1'') ''quiz_1'' ''easy'' 1
     = Inr (projr (createQuiz allKeys groqOnly (Some ''u1'') ''quiz_1'' ''easy'' 1)) \<and>
   isCorrect (evaluateResponse
      (questions (projr (createQuiz allKeys groqOnly (Some ''u1'') ''quiz_1'' ''easy'' 1)))
      (''q1'', ''B'')) = Some True \<and>
   isCorrect (evaluateResponse
      (questions (projr (createQuiz allKeys groqOnly (Some ''u1'') ''quiz_1'' ''easy'' 1)))
      (''q1'', ''b) 4'')) = Some False"
    by code_simp
  with answer_is_bare_letter [of lowerCaseText 1 allKeys groqOnly "Some ''u1''" "''quiz_1''" "''easy''"
      "projr (createQuiz allKeys groqOnly (Some ''u1'') ''quiz_1'' ''easy'' 1)" "(''q1'', ''B'')"]
  show ?thesis by blast
qed

text \<open>A block whose second option is written "b) 4" is parsed with that option as it
  stands: it begins with none of "A)", "B)", "C)", "D)".\<close>

theorem answer_is_bare_letter_counterexample:
  "map options (parseQuestionsFromText lowerCaseText 1) = [[''A) 3'', ''b) 4'', ''C) 5'', ''D) 6'']] \<and>
   map answer (parseQuestionsFromText lowerCaseText 1) = [''B''] \<and>
   take 2 ''b) 4'' \<notin> set [''A)'', ''B)'', ''C)'', ''D)'']"
  by code_simp

section \<open>Claims about the gateway and the submissions\<close>

text \<open>
  C4. If every provider fails or is unavailable (its key is missing, so that it is
  skipped, or its request fails, or its text yields no question), generateQuestions ends
  with the error AllProvidersExhausted; this is its only error, and it arises in no other
  case. A result it returns is non-empty and is what the parser made of the text of one
  of the providers, nothing else. Likewise generateAISuggestions ends with its error when
  every model fails, and what it returns are the three suggestions parsed from the
  content of one model.
\<close>

theorem all_providers_exhausted:
  "(allProvidersFail ev net n \<longrightarrow> generateQuestions ev net n = Inl AllProvidersExhausted) \<and>
   (generateQuestions ev net n = Inl e \<longrightarrow> e = AllProvidersExhausted \<and> allProvidersFail ev net n) \<and>
   (generateQuestions ev net n = Inr qs \<longrightarrow>
      qs \<noteq> [] \<and>
      (qs = completionYield (openRouterChat net) n \<or> qs = completionYield (groqChat net) n \<or>
       (\<exists>model \<in> set workingModels. qs = completionYield (hfTextGeneration net model) n))) \<and>
   (keyMissing (OPENROUTER_API_KEY ev) \<longrightarrow> tryOpenRouterGeneration ev net n = None) \<and>
   (keyMissing (GROQ_API_KEY ev) \<longrightarrow> tryGroqGeneration ev net n = None) \<and>
   (keyMissing (HUGGINGFACE_API_KEY ev) \<longrightarrow> tryHuggingFaceGeneration ev net n = None) \<and>
   (list_all (\<lambda>model. modelFails (fetch model)) freeModels \<longrightarrow>
      generateAISuggestions fetch = Inl AllModelsFailed) \<and>
   (generateAISuggestions fetch = Inr s \<longrightarrow>
      length s = 3 \<and>
      (\<exists>model \<in> set freeModels. \<exists>c. fetch model = Content c \<and> s = parseSuggestions c))"
proof (intro conjI impI)
  assume "allProvidersFail ev net n"
  then show "generateQuestions ev net n = Inl AllProvidersExhausted"
    unfolding generateQuestions_usable usable_openRouter usable_groq usable_hf
    by (simp add: allProvidersFail_def)
next
  assume a: "generateQuestions ev net n = Inl e"
  then have "\<not> usable (tryOpenRouterGeneration ev net n) \<and>
      \<not> usable (tryGroqGeneration ev net n) \<and> \<not> usable (tryHuggingFaceGeneration ev net n)"
    unfolding generateQuestions_usable
    by (auto simp: usable_def split: if_splits option.splits)
  then show "allProvidersFail ev net n"
    unfolding usable_openRouter usable_groq usable_hf by (simp add: allProvidersFail_def)
  from a show "e = AllProvidersExhausted"
    unfolding generateQuestions_usable
    by (auto simp: usable_def split: if_splits option.splits)
next
  assume a: "generateQuestions ev net n = Inr qs"
  from generateQuestions_Inr [OF a]
  show "qs \<noteq> []"
    and "qs = completionYield (openRouterChat net) n \<or> qs = completionYield (groqChat net) n \<or>
       (\<exists>model \<in> set workingModels. qs = completionYield (hfTextGeneration net model) n)"
    by blast+
next
  assume "list_all (\<lambda>model. modelFails (fetch model)) freeModels"
  then show "generateAISuggestions fetch = Inl AllModelsFailed"
    unfolding generateAISuggestions_def by (rule suggestionLoop_fails)
next
  assume a: "generateAISuggestions fetch = Inr s"
  from suggestionLoop_Inr [OF a [unfolded generateAISuggestions_def]]
  show "length s = 3"
    and "\<exists>model \<in> set freeModels. \<exists>c. fetch model = Content c \<and> s = parseSuggestions c"
    by blast+
qed (simp_all add: tryOpenRouterGeneration_def tryGroqGeneration_def tryHuggingFaceGeneration_def)

theorem all_providers_exhausted_witness:
  "allProvidersFail allKeys deadNetwork 3 \<and>
   generateQuestions allKeys deadNetwork 3 = Inl AllProvidersExhausted \<and>
   allProvidersFail noKeys groqOnly 3 \<and>
   generateQuestions noKeys groqOnly 3 = Inl AllProvidersExhausted \<and>
   list_all (\<lambda>model. modelFails (offlineFetch model)) freeModels \<and>
   generateAISuggestions offlineFetch = Inl AllModelsFailed \<and>
   map questionId (projr (generateQuestions allKeys groqOnly 1)) = [''q1'']"
proof -
  have a: "allProvidersFail allKeys deadNetwork 3"
    by (simp add: allProvidersFail_def providerFails_def completionYield_def deadNetwork_def
        workingModels_def)
  have b: "allProvidersFail noKeys groqOnly 3"
    by (simp add: allProvidersFail_def providerFails_def keyMissing_def noKeys_def)
  have c: "list_all (\<lambda>model. modelFails (offlineFetch model)) freeModels"
    by (simp add: modelFails_def offlineFetch_def freeModels_def)
  have d: "map questionId (projr (generateQuestions allKeys groqOnly 1)) = [''q1'']"
    by code_simp
  from a b c d all_providers_exhausted [of allKeys deadNetwork 3]
    all_providers_exhausted [of noKeys groqOnly 3]
    all_providers_exhausted [of _ _ _ _ _ offlineFetch]
  show ?thesis by blast
qed

text \<open>
  C8. Every submission document that a submission-creating handler builds (the two
  handlers of POST /:quizId/submit-ejs, POST /:quizId/retry and POST /:quizId/submit) has
  a score equal to the number of its responses whose isCorrect flag is true; saving a
  document stores it unchanged, so the same holds for every stored submission.
\<close>

theorem score_counts_correct_responses:
  "(submitEjs found uname uid qzId entries fetch = Inr s1 \<longrightarrow>
      scoreMatches s1 \<and>
      (\<exists>qz. found = Some qz \<and> responses s1 = map (evaluateResponse (questions qz)) entries)) \<and>
   (submitEjsRandom draws uname uid qzId entries fetch = Inr s2 \<longrightarrow> scoreMatches s2) \<and>
   (retry found = Inr s3 \<longrightarrow> scoreMatches s3 \<and> responses s3 = [] \<and> score s3 = 0) \<and>
   (submitAnswers found' reqUser answerIds = Inr s4 \<longrightarrow>
      scoreMatches s4 \<and> responses s4 = [] \<and> score s4 = 0) \<and>
   (saveSubmission s5 = Inr s6 \<longrightarrow> s6 = s5)"
proof (intro conjI impI)
  assume "submitEjs found uname uid qzId entries fetch = Inr s1"
  then show "scoreMatches s1"
    and "\<exists>qz. found = Some qz \<and> responses s1 = map (evaluateResponse (questions qz)) entries"
    by (auto simp: submitEjs_def Let_def countCorrect_matches split: option.splits)
next
  assume "submitEjsRandom draws uname uid qzId entries fetch = Inr s2"
  then show "scoreMatches s2"
    by (auto simp: submitEjsRandom_def Let_def countCorrect_matches)
next
  assume "retry found = Inr s3"
  then show "scoreMatches s3" and "responses s3 = []" and "score s3 = 0"
    by (auto simp: retry_def scoreMatches_def split: option.splits)
next
  assume a: "submitAnswers found' reqUser answerIds = Inr s4"
  then obtain oid byId t where "scoreAnswers byId answerIds 0 = Inr t"
    and s: "s4 = \<lparr> s_quizId = oid, username = None, userId = None,
                          responses = [], score = t, suggestions = [] \<rparr>"
    by (auto simp: submitAnswers_def split: option.splits sum.splits prod.splits)
  from scoreAnswers_Inr [OF this(1)] have "t = 0" .
  with s show "scoreMatches s4" and "responses s4 = []" and "score s4 = 0"
    by (simp_all add: scoreMatches_def)
next
  assume "saveSubmission s5 = Inr s6"
  then show "s6 = s5"
    by (auto simp: saveSubmission_def split: if_splits)
qed

theorem score_counts_correct_responses_witness:
  "(case submitEjs (Some sampleQuiz) (Some ''ann'') (Some ''u1'') ''quiz_1'' sampleEntries offlineFetch of
      Inr s \<Rightarrow> score s = 1 \<and> length (responses s) = 3 \<and> scoreMatches s \<and> saveSubmission s = Inr s
    | Inl e \<Rightarrow> False) \<and>
   (case submitEjsRandom coinDraws (Some ''ann'') (Some ''u1'') ''quiz_1'' sampleEntries offlineFetch of
      Inr s \<Rightarrow> score s = 2 \<and> scoreMatches s
    | Inl e \<Rightarrow> False) \<and>
   (case retry (Some sampleQuiz) of
      Inr s \<Rightarrow> score s = 0 \<and> scoreMatches s \<and> saveSubmission s = Inl ValidationError
    | Inl e \<Rightarrow> False) \<and>
   (case submitAnswers (Some (''oid_1'', noSuchQuestion)) (Some (Some ''ann'')) [''q1''] of
      Inr s \<Rightarrow> score s = 0 \<and> scoreMatches s \<and> saveSubmission s = Inl ValidationError
    | Inl e \<Rightarrow> False)"
proof -
  have a: "(case submitEjs (Some sampleQuiz) (Some ''ann'') (Some ''u1'') ''quiz_1'' sampleEntries offlineFetch of
      Inr s \<Rightarrow> score s = 1 \<and> length (responses s) = 3 \<and> saveSubmission s = Inr s
    | Inl e \<Rightarrow> False)"
    by code_simp
  have b: "(case submitEjsRandom coinDraws (Some ''ann'') (Some ''u1'') ''quiz_1'' sampleEntries offlineFetch of
      Inr s \<Rightarrow> score s = 2
    | Inl e \<Rightarrow> False)"
    by code_simp
  have c: "(case retry (Some sampleQuiz) of
      Inr s \<Rightarrow> score s = 0 \<and> saveSubmission s = Inl ValidationError
    | Inl e \<Rightarrow> False)"
    by code_simp
  have d: "(case submitAnswers (Some (''oid_1'', noSuchQuestion)) (Some (Some ''ann'')) [''q1''] of
      Inr s \<Rightarrow> score s = 0 \<and> saveSubmission s = Inl ValidationError
    | Inl e \<Rightarrow> False)"
    by code_simp
  from a b c d
    score_counts_correct_responses [of "Some sampleQuiz" "Some ''ann''" "Some ''u1''" "''quiz_1''"
      sampleEntries offlineFetch _ coinDraws _ _ "Some (''oid_1'', noSuchQuestion)"
      "Some (Some ''ann'')" "[''q1'']"]
  show ?thesis
    by (auto split: sum.splits)
qed

end
